theory Spec2Isabelle
  imports Complex_Main "HOL-Library.Word"
begin

section \<open>Engine values and native pointers\<close>

text \<open>
  The bindings of \<^verbatim>\<open>all_collection.cc\<close> talk to the script engine through opaque
  handles. A \<^verbatim>\<open>JSValueRef\<close> is modelled by its kind; an object value carries the
  identity of the engine object. A number value carries an integer; the coercion of a
  value to a number belongs to the engine and is a parameter of every function that
  calls it.
\<close>

type_synonym size_t = "64 word"

type_synonym JSObjectRef = nat

datatype JSValueRef =
    JSUndefined
  | JSNull
  | JSBoolean bool
  | JSNumber int
  | JSString string
  | JSObject JSObjectRef

text \<open>
  What a call leaves in its \<^verbatim>\<open>JSValueRef *exception\<close> out-parameter: the Error object
  built from a message, or a value raised by the engine during a coercion.
\<close>

datatype exception = Error string | Raised JSValueRef

text \<open>
  A \<^verbatim>\<open>JSNode::NodeInstance *\<close>. The collection stores such pointers without owning the
  nodes. A \<^verbatim>\<open>NodeInstance\<close> is read only through its \<^verbatim>\<open>object\<close> field.
\<close>

datatype NodeInstance_ptr = nullptr | NodePtr nat

record NodeInstance =
  object :: JSObjectRef

type_synonym node_heap = "nat \<rightharpoonup> NodeInstance"

text \<open>
  C++ leaves some executions without a meaning (an iterator outside its vector, a null
  or dangling pointer dereferenced). They are the outcome \<open>Undefined\<close>; everything else
  is \<open>Done\<close> with the values the call produced.
\<close>

datatype 'a outcome = Undefined | Done 'a

text \<open>
  A C++ \<^verbatim>\<open>double\<close>, as \<^verbatim>\<open>JSValueToNumber\<close> returns it: not a number, an infinity (\<open>True\<close>
  for the positive one) or a finite value.
\<close>

datatype double = NaN | Infinity bool | Finite real

text \<open>
  The implicit conversion in \<^verbatim>\<open>size_t index = JSValueToNumber(...)\<close>. It discards the
  fractional part, and it is defined only when the truncated value can be represented in
  \<^verbatim>\<open>size_t\<close>; for a negative value, a value of \<open>2 ^ 64\<close> or more, an infinity or NaN the
  language gives the conversion no meaning (what arrives then differs between machines).
\<close>

definition double_to_size_t :: "double \<Rightarrow> size_t outcome" where
  "double_to_size_t d =
     (case d of
        Finite r \<Rightarrow>
          (let truncated = (if 0 \<le> r then \<lfloor>r\<rfloor> else \<lceil>r\<rceil>) in
           if 0 \<le> truncated \<and> truncated < 2 ^ 64 then Done (word_of_int truncated)
           else Undefined)
      | _ \<Rightarrow> Undefined)"

text \<open>
  The arguments of a bound native function arrive as an array with its count, which is
  the length of the list. Reading \<^verbatim>\<open>arguments[i]\<close> is defined only below the count.
\<close>

definition argument_at :: "'v list \<Rightarrow> nat \<Rightarrow> 'v outcome" where
  "argument_at arguments i = (if i < length arguments then Done (arguments ! i) else Undefined)"

text \<open>
  The fields of a \<^verbatim>\<open>JSAllCollection\<close>: the function objects of its three bound
  functions and the vector of node pointers.
\<close>

record JSAllCollection =
  m_item :: JSObjectRef
  m_add :: JSObjectRef
  m_remove :: JSObjectRef
  m_nodes :: "NodeInstance_ptr list"

text \<open>
  The observable result of a bound native function: the returned \<^verbatim>\<open>JSValueRef\<close>
  (\<open>None\<close> is \<^verbatim>\<open>nullptr\<close>, which the engine shows to the script as undefined), what
  was written to \<^verbatim>\<open>*exception\<close> (\<open>None\<close>: nothing), and the collection after the
  call.
\<close>

record call_result =
  returned :: "JSValueRef option"
  raised :: "exception option"
  collection :: JSAllCollection

fun JSValueIsObject :: "JSValueRef \<Rightarrow> bool" where
  "JSValueIsObject (JSObject r) = True"
| "JSValueIsObject v = False"

text \<open>
  \<^verbatim>\<open>JSValueToObject\<close> returns the object itself for an object value and writes no
  exception. Both calls in \<^verbatim>\<open>add\<close> are guarded by \<^verbatim>\<open>JSValueIsObject\<close>; for any other
  value the result is the null reference \<open>None\<close>.
\<close>

fun JSValueToObject :: "JSValueRef \<Rightarrow> JSObjectRef option" where
  "JSValueToObject (JSObject r) = Some r"
| "JSValueToObject v = None"

text \<open>
  Modelled from the spec: the macro \<^verbatim>\<open>JSC_THROW_ERROR(ctx, msg, exception)\<close> is not
  part of the sources at hand. It surfaces an error with a human-readable message into
  the engine's failure-propagation channel, that is, it stores an Error object made from
  \<open>msg\<close> in \<^verbatim>\<open>*exception\<close>.
\<close>

definition JSC_THROW_ERROR :: "string \<Rightarrow> exception option" where
  "JSC_THROW_ERROR msg = Some (Error msg)"

section \<open>The vector of nodes\<close>

text \<open>
  \<^verbatim>\<open>std::vector\<close> iterators are positions counted from \<^verbatim>\<open>begin()\<close>; \<^verbatim>\<open>end()\<close> is the
  length. \<^verbatim>\<open>std::find\<close> returns the position of the first equal element, or \<^verbatim>\<open>end()\<close>.
\<close>

fun std_find :: "'a list \<Rightarrow> 'a \<Rightarrow> nat" where
  "std_find [] x = 0"
| "std_find (y # ys) x = (if y = x then 0 else Suc (std_find ys x))"

text \<open>
  \<^verbatim>\<open>erase(pos)\<close> needs a dereferenceable position: erasing at \<^verbatim>\<open>end()\<close> or beyond has
  no defined behaviour. \<^verbatim>\<open>insert(pos, x)\<close> accepts every position up to \<^verbatim>\<open>end()\<close>.
\<close>

definition erase :: "'a list \<Rightarrow> nat \<Rightarrow> 'a list outcome" where
  "erase v pos = (if pos < length v then Done (take pos v @ drop (Suc pos) v) else Undefined)"

definition insert_at :: "'a list \<Rightarrow> nat \<Rightarrow> 'a \<Rightarrow> 'a list outcome" where
  "insert_at v pos x = (if pos \<le> length v then Done (take pos v @ x # drop pos v) else Undefined)"

section \<open>JSAllCollection\<close>

text \<open>
  \<^verbatim>\<open>internalAdd\<close>: with a non-null \<open>before\<close> the vector is searched, the found position
  is erased and \<open>node\<close> is inserted at the same position; with a null \<open>before\<close> the node
  is appended. The iterator that the source keeps across \<^verbatim>\<open>erase\<close> is taken as the
  position it pointed to, which is what a contiguous vector makes of it (the language
  itself calls such an iterator invalidated).
\<close>

definition internalAdd ::
  "NodeInstance_ptr list \<Rightarrow> NodeInstance_ptr \<Rightarrow> NodeInstance_ptr \<Rightarrow> NodeInstance_ptr list outcome"
where
  "internalAdd nodes node before =
     (if before \<noteq> nullptr then
        (let it = std_find nodes before in
         case erase nodes it of
           Undefined \<Rightarrow> Undefined
         | Done erased \<Rightarrow> insert_at erased it node)
      else Done (nodes @ [node]))"

text \<open>
  \<^verbatim>\<open>item\<close>. The parameter \<open>toNumber\<close> is the engine's \<^verbatim>\<open>JSValueToNumber\<close>: it gives what
  the engine wrote to \<^verbatim>\<open>*exception\<close> and the double it returned. The double is
  converted to the \<^verbatim>\<open>size_t\<close> \<open>index\<close>, the index is compared with the size of the
  vector, and the node found is dereferenced for its \<^verbatim>\<open>object\<close> field. The collection
  \<open>c\<close> is the private data of the function object.
\<close>

definition item ::
  "(JSValueRef \<Rightarrow> exception option \<times> double) \<Rightarrow> node_heap \<Rightarrow> JSAllCollection \<Rightarrow>
     JSValueRef list \<Rightarrow> call_result outcome"
where
  "item toNumber heap c arguments =
     (if length arguments < 1 then
        Done \<lparr>returned = None, raised = None, collection = c\<rparr>
      else
        (case argument_at arguments 0 of
           Undefined \<Rightarrow> Undefined
         | Done argument0 \<Rightarrow>
             (let (exc, number) = toNumber argument0 in
              case double_to_size_t number of
                Undefined \<Rightarrow> Undefined
              | Done index \<Rightarrow>
                  if unat index \<ge> length (m_nodes c) then
                    Done \<lparr>returned = None, raised = exc, collection = c\<rparr>
                  else
                    (case m_nodes c ! unat index of
                       nullptr \<Rightarrow> Undefined
                     | NodePtr a \<Rightarrow>
                         (case heap a of
                            None \<Rightarrow> Undefined
                          | Some node \<Rightarrow>
                              Done \<lparr>returned = Some (JSObject (object node)), raised = exc,
                                    collection = c\<rparr>)))))"

text \<open>
  \<^verbatim>\<open>add\<close>. The parameter \<open>getPrivate\<close> is \<^verbatim>\<open>JSObjectGetPrivate\<close> on a non-null object,
  reinterpreted as a node pointer. The second argument is read only when the count is 2.
  As in the source, \<open>beforeInstance\<close> is read from \<open>nodeRef\<close>.
\<close>

definition add ::
  "(JSObjectRef \<Rightarrow> NodeInstance_ptr) \<Rightarrow> JSAllCollection \<Rightarrow> JSValueRef list \<Rightarrow>
     call_result outcome"
where
  "add getPrivate c arguments =
     (if length arguments < 1 then
        Done \<lparr>returned = None,
              raised = JSC_THROW_ERROR
                ''Failed to execute add() on HTMLAllCollection: 1 arguments required.'',
              collection = c\<rparr>
      else
        (case argument_at arguments 0 of
           Undefined \<Rightarrow> Undefined
         | Done argument0 \<Rightarrow>
             if \<not> JSValueIsObject argument0 then
               Done \<lparr>returned = None,
                     raised = JSC_THROW_ERROR
                       ''Failed to execute add() on HTMLAllCollection: first arguments should be a object.'',
                     collection = c\<rparr>
             else
               (let nodeRef = JSValueToObject argument0 in
                case (if length arguments = 2 then
                        (case argument_at arguments 1 of
                           Undefined \<Rightarrow> Undefined
                         | Done argument1 \<Rightarrow>
                             Done (if JSValueIsObject argument1
                                   then JSValueToObject argument1 else None))
                      else Done None) of
                  Undefined \<Rightarrow> Undefined
                | Done beforeRef \<Rightarrow>
                    (case nodeRef of
                       None \<Rightarrow> Undefined
                     | Some n \<Rightarrow>
                         (let nodeInstance = getPrivate n;
                              beforeInstance =
                                (if beforeRef \<noteq> None then getPrivate n else nullptr)
                          in case internalAdd (m_nodes c) nodeInstance beforeInstance of
                               Undefined \<Rightarrow> Undefined
                             | Done nodes' \<Rightarrow>
                                 Done \<lparr>returned = None, raised = None,
                                       collection = c\<lparr>m_nodes := nodes'\<rparr>\<rparr>)))))"

text \<open>
  \<^verbatim>\<open>remove\<close>: the argument is converted as in \<^verbatim>\<open>item\<close>, and the index goes to
  \<^verbatim>\<open>erase(begin() + index)\<close> as it arrives.
\<close>

definition remove ::
  "(JSValueRef \<Rightarrow> exception option \<times> double) \<Rightarrow> JSAllCollection \<Rightarrow> JSValueRef list \<Rightarrow>
     call_result outcome"
where
  "remove toNumber c arguments =
     (if length arguments < 1 then
        Done \<lparr>returned = None,
              raised = JSC_THROW_ERROR
                ''Failed to execute remove() on HTMLAllCollection: 1 arguments required.'',
              collection = c\<rparr>
      else
        (case argument_at arguments 0 of
           Undefined \<Rightarrow> Undefined
         | Done argument0 \<Rightarrow>
             (let (exc, number) = toNumber argument0 in
              case double_to_size_t number of
                Undefined \<Rightarrow> Undefined
              | Done index \<Rightarrow>
                  (case erase (m_nodes c) (unat index) of
                     Undefined \<Rightarrow> Undefined
                   | Done nodes' \<Rightarrow>
                       Done \<lparr>returned = None, raised = exc,
                             collection = c\<lparr>m_nodes := nodes'\<rparr>\<rparr>))))"

subsection \<open>Property lookup\<close>

datatype AllCollectionProperty = kItem | kAdd | kRemove | kLength

definition getAllCollectionPropertyMap :: "string \<rightharpoonup> AllCollectionProperty" where
  "getAllCollectionPropertyMap =
     map_of [(''item'', kItem), (''add'', kAdd), (''remove'', kRemove), (''length'', kLength)]"

text \<open>
  \<^verbatim>\<open>getProperty\<close> answers a name of the property map itself and hands every other name
  to \<^verbatim>\<open>HostObject::getProperty\<close>, which is the parameter \<open>hostObjectGetProperty\<close>. A
  result is the returned value and what was written to \<^verbatim>\<open>*exception\<close>.
\<close>

definition getProperty ::
  "(string \<Rightarrow> JSValueRef option \<times> exception option) \<Rightarrow> JSAllCollection \<Rightarrow> string \<Rightarrow>
     JSValueRef option \<times> exception option"
where
  "getProperty hostObjectGetProperty c name =
     (case getAllCollectionPropertyMap name of
        Some property \<Rightarrow>
          (case property of
             kItem \<Rightarrow> (Some (JSObject (m_item c)), None)
           | kAdd \<Rightarrow> (Some (JSObject (m_add c)), None)
           | kRemove \<Rightarrow> (Some (JSObject (m_remove c)), None)
           | kLength \<Rightarrow> (Some (JSNumber (int (length (m_nodes c)))), None))
      | None \<Rightarrow> hostObjectGetProperty name)"

section \<open>JSWindow\<close>

text \<open>
  Modelled from the spec: \<^verbatim>\<open>jsa.h\<close>, which declares \<^verbatim>\<open>Value\<close>, is not part of the
  sources at hand. A stored callback value is cleared by setting it to an empty, neutral
  value; a \<^verbatim>\<open>Value\<close> is modelled by its kind and \<open>NullValue\<close> is what the assignment of
  \<^verbatim>\<open>nullptr\<close> leaves.
\<close>

datatype Value =
    UndefinedValue
  | NullValue
  | BooleanValue bool
  | NumberValue int
  | StringValue string
  | ObjectValue nat

text \<open>
  A \<^verbatim>\<open>std::shared_ptr\<close> is the address of the managed object (\<open>None\<close>: empty). The use
  counts of all managed objects are kept in a store, and an object whose last owner lets
  go leaves the store.
\<close>

type_synonym use_counts = "nat \<rightharpoonup> nat"

definition shared_ptr_reset :: "nat option \<Rightarrow> use_counts \<Rightarrow> use_counts" where
  "shared_ptr_reset p counts =
     (case p of
        None \<Rightarrow> counts
      | Some a \<Rightarrow>
          (case counts a of
             None \<Rightarrow> counts
           | Some n \<Rightarrow> if n \<le> 1 then counts(a := None) else counts(a \<mapsto> n - 1)))"

record JSWindow =
  onloadCallback :: Value
  devicePixelRatio :: int
  location :: "nat option"

text \<open>
  The fields above are \<^verbatim>\<open>_onloadCallback\<close>, \<^verbatim>\<open>_devicePixelRatio\<close> and \<^verbatim>\<open>location_\<close> of
  \<^verbatim>\<open>window.h\<close>. The body of \<^verbatim>\<open>~JSWindow\<close>, statement by statement. It runs to its end before the
  members are destroyed and the storage of the object is given back; the state it returns
  is the one those later steps see.
\<close>

definition JSWindow_destructor :: "JSWindow \<times> use_counts \<Rightarrow> JSWindow \<times> use_counts" where
  "JSWindow_destructor st =
     (let (w, counts) = st;
          w1 = w\<lparr>onloadCallback := NullValue\<rparr>;
          counts2 = shared_ptr_reset (location w1) counts;
          w2 = w1\<lparr>location := None\<rparr>
      in (w2, counts2))"

section \<open>JSCDebuggerImpl\<close>

text \<open>
  The debugger implementation only calls into the engine; a run is the sequence of those
  calls. \<open>DropAllLocks\<close> and \<open>RestoreLocks\<close> are the constructor and the destructor of
  \<^verbatim>\<open>JSC::JSLock::DropAllLocks\<close>, \<open>LockHolderEnter\<close> and \<open>LockHolderLeave\<close> those of
  \<^verbatim>\<open>JSC::JSLockHolder\<close>; \<open>SleepFor ms\<close> is \<^verbatim>\<open>std::this_thread::sleep_for\<close>.
\<close>

datatype ReasonForDetach = TerminatingDebuggingSession | GlobalObjectIsDestructing

datatype engine_call =
    Log string
  | Attach
  | Detach ReasonForDetach
  | LockHolderEnter
  | DebuggerRecompileAllJSFunctions
  | LockHolderLeave
  | DropAllLocks
  | SleepFor nat
  | RestoreLocks

definition recompileAllJSFunctions :: "engine_call list" where
  "recompileAllJSFunctions =
     [Log ''recompileAllJSFunctions called'', LockHolderEnter,
      DebuggerRecompileAllJSFunctions, LockHolderLeave]"

definition attachDebugger :: "engine_call list" where
  "attachDebugger = [Attach]"

definition detachDebugger :: "bool \<Rightarrow> engine_call list" where
  "detachDebugger isBeingDestroyed =
     [Log ''[debugger] JS debugger detached!'',
      Detach (if isBeingDestroyed then GlobalObjectIsDestructing
              else TerminatingDebuggingSession)]
     @ (if \<not> isBeingDestroyed then recompileAllJSFunctions else [])"

text \<open>
  The pause loop. \<^verbatim>\<open>m_doneProcessingDebuggerEvents\<close> is written by another thread, so
  what the loop reads is given from outside: \<open>flag k\<close> is the value read by the \<open>k\<close>-th
  evaluation of the loop condition, counted from 0. A loop that never leaves has no result.
\<close>

partial_function (option) pause_loop ::
  "(nat \<Rightarrow> bool) \<Rightarrow> nat \<Rightarrow> engine_call list \<Rightarrow> engine_call list option"
where
  "pause_loop flag k calls =
     (if \<not> flag k then pause_loop flag (Suc k) (calls @ [SleepFor 50]) else Some calls)"

definition runEventLoopWhilePaused :: "(nat \<Rightarrow> bool) \<Rightarrow> engine_call list option" where
  "runEventLoopWhilePaused flag =
     (case pause_loop flag 0 [DropAllLocks] of
        None \<Rightarrow> None
      | Some calls \<Rightarrow> Some (calls @ [RestoreLocks]))"

section \<open>A concrete engine for examples\<close>

text \<open>
  Object \<open>10 + k\<close> is the script object of the node at address \<open>k\<close>; objects up to 10 are
  plain script objects, whose private data is null. The coercion never raises: a number
  is its own value, undefined is NaN, null is 0, true is 1 and false is 0. A string of
  the examples is text that is not a numeric literal and an object has no numeric
  primitive value, so both are NaN.
\<close>

definition demo_getPrivate :: "JSObjectRef \<Rightarrow> NodeInstance_ptr" where
  "demo_getPrivate r = (if 10 < r then NodePtr (r - 10) else nullptr)"

definition demo_heap :: node_heap where
  "demo_heap a = (if 0 < a then Some \<lparr>object = 10 + a\<rparr> else None)"

definition demo_toNumber :: "JSValueRef \<Rightarrow> exception option \<times> double" where
  "demo_toNumber v =
     (case v of
        JSUndefined \<Rightarrow> (None, NaN)
      | JSNull \<Rightarrow> (None, Finite 0)
      | JSBoolean b \<Rightarrow> (None, Finite (if b then 1 else 0))
      | JSNumber n \<Rightarrow> (None, Finite (of_int n))
      | JSString s \<Rightarrow> (None, NaN)
      | JSObject r \<Rightarrow> (None, NaN))"

definition demo_collection :: JSAllCollection where
  "demo_collection =
     \<lparr>m_item = 1, m_add = 2, m_remove = 3, m_nodes = [NodePtr 1, NodePtr 2, NodePtr 3]\<rparr>"

definition demo_window :: JSWindow where
  "demo_window = \<lparr>onloadCallback = ObjectValue 7, devicePixelRatio = 2, location = Some 5\<rparr>"

text \<open>
  \<^verbatim>\<open>SampleExoticHostObject::getProperty\<close> of \<^verbatim>\<open>host_object_test.cc\<close> answers every name
  with the number 100.
\<close>

definition SampleExoticHostObject_getProperty ::
  "string \<Rightarrow> JSValueRef option \<times> exception option"
where
  "SampleExoticHostObject_getProperty atom = (Some (JSNumber 100), None)"

section \<open>Facts about the vector operations\<close>

lemma std_find_le: "std_find xs x \<le> length xs"
  by (induction xs) auto

lemma std_find_notin: "x \<notin> set xs \<Longrightarrow> std_find xs x = length xs"
  by (induction xs) auto

lemma std_find_in: "x \<in> set xs \<Longrightarrow> std_find xs x < length xs \<and> xs ! std_find xs x = x"
  by (induction xs) auto

text \<open>
  With a non-null \<open>before\<close> that is not stored, \<^verbatim>\<open>internalAdd\<close> erases at \<^verbatim>\<open>end()\<close>.
\<close>

lemma internalAdd_missing:
  "before \<noteq> nullptr \<Longrightarrow> before \<notin> set nodes \<Longrightarrow> internalAdd nodes node before = Undefined"
  by (simp add: internalAdd_def erase_def std_find_notin)

text \<open>
  With a stored \<open>before\<close>, \<^verbatim>\<open>internalAdd\<close> overwrites its first occurrence with \<open>node\<close>:
  the length stays and \<open>before\<close> loses that place.
\<close>

lemma internalAdd_member:
  "before \<noteq> nullptr \<Longrightarrow> before \<in> set nodes \<Longrightarrow>
   internalAdd nodes node before = Done (nodes[std_find nodes before := node])"
  using std_find_in [of before nodes]
  by (auto simp add: internalAdd_def erase_def insert_at_def Let_def
        upd_conv_take_nth_drop min_def)

lemma internalAdd_null: "internalAdd nodes node nullptr = Done (nodes @ [node])"
  by (simp add: internalAdd_def)

section \<open>JSAllCollection: item, add, remove\<close>

text \<open>
  C1. The claim: when \<open>m\<close> is stored at index \<open>k\<close>, \<open>add(n, before = m)\<close> puts \<open>n\<close> at
  index \<open>k\<close>, leaves \<open>m\<close> at \<open>k + 1\<close> and makes the collection one longer. The code does
  not: on the nodes A, B, C (addresses 1, 2, 3), \<open>add(D, B)\<close> with the new node D
  (address 4) reads \<open>beforeInstance\<close> from the first argument, searches the vector for D
  itself and erases at \<^verbatim>\<open>end()\<close>; and \<^verbatim>\<open>internalAdd\<close> called with the right pointers
  overwrites B with D, giving A, D, C.
\<close>

theorem add_before_member_fails:
  "add demo_getPrivate demo_collection [JSObject 14, JSObject 12] = Undefined
   \<and> internalAdd [NodePtr 1, NodePtr 2, NodePtr 3] (NodePtr 4) (NodePtr 2)
       = Done [NodePtr 1, NodePtr 4, NodePtr 3]"
  by (simp add: add_def argument_at_def internalAdd_def erase_def insert_at_def
        demo_getPrivate_def demo_collection_def)

text \<open>
  C2, as the code has it. Called with no argument, \<^verbatim>\<open>add\<close> and \<^verbatim>\<open>remove\<close> store an
  Error saying that one argument is required, return \<^verbatim>\<open>nullptr\<close> and leave the
  collection as it was; \<^verbatim>\<open>item\<close> called with no argument returns \<^verbatim>\<open>nullptr\<close> and
  stores no error. None of the three reads an argument on the way: with a count of 0
  every read of the argument array is out of bounds and would make the call \<open>Undefined\<close>,
  and all three calls are \<open>Done\<close>.
\<close>

theorem too_few_arguments:
  "item toNumber heap c [] = Done \<lparr>returned = None, raised = None, collection = c\<rparr>
   \<and> add getPrivate c [] =
       Done \<lparr>returned = None,
             raised = Some (Error
               ''Failed to execute add() on HTMLAllCollection: 1 arguments required.''),
             collection = c\<rparr>
   \<and> remove toNumber c [] =
       Done \<lparr>returned = None,
             raised = Some (Error
               ''Failed to execute remove() on HTMLAllCollection: 1 arguments required.''),
             collection = c\<rparr>
   \<and> argument_at ([] :: JSValueRef list) i = Undefined"
  by (simp add: item_def add_def remove_def JSC_THROW_ERROR_def argument_at_def)

text \<open>
  C2 as stated asks for an arity error from \<^verbatim>\<open>item\<close> as well. \<^verbatim>\<open>item\<close> called with no
  argument on the collection A, B, C returns absence and raises nothing.
\<close>

theorem item_without_argument_is_silent:
  "item demo_toNumber demo_heap demo_collection [] =
     Done \<lparr>returned = None, raised = None, collection = demo_collection\<rparr>"
  by (simp add: item_def)

text \<open>
  What \<^verbatim>\<open>item\<close> does once the conversion of the argument has given a \<^verbatim>\<open>size_t\<close>: below
  the length it returns the script object of the live node stored there, at or above the
  length it returns \<^verbatim>\<open>nullptr\<close>; the collection is unchanged and the exception slot
  holds what the coercion left there.
\<close>

lemma item_checked_after_conversion:
  assumes "toNumber a = (exc, number)" and "double_to_size_t number = Done index"
  shows "(unat index < length (m_nodes c) \<longrightarrow> m_nodes c ! unat index = NodePtr p \<longrightarrow>
            heap p = Some node \<longrightarrow>
            item toNumber heap c (a # rest) =
              Done \<lparr>returned = Some (JSObject (object node)), raised = exc, collection = c\<rparr>)
       \<and> (length (m_nodes c) \<le> unat index \<longrightarrow>
            item toNumber heap c (a # rest) =
              Done \<lparr>returned = None, raised = exc, collection = c\<rparr>)"
  using assms by (simp add: item_def argument_at_def)

text \<open>
  A number whose truncation is not a \<^verbatim>\<open>size_t\<close> value never reaches the comparison with
  the length.
\<close>

lemma item_conversion_undefined:
  assumes "toNumber a = (exc, number)" and "double_to_size_t number = Undefined"
  shows "item toNumber heap c (a # rest) = Undefined"
  using assms by (simp add: item_def argument_at_def)

text \<open>
  \<^verbatim>\<open>add\<close> of a plain script object stores its null private data, and \<^verbatim>\<open>item\<close> at that
  index dereferences it.
\<close>

lemma item_on_null_entry:
  "add demo_getPrivate demo_collection [JSObject 1] =
     Done \<lparr>returned = None, raised = None,
           collection = demo_collection
             \<lparr>m_nodes := [NodePtr 1, NodePtr 2, NodePtr 3, nullptr]\<rparr>\<rparr>
   \<and> item demo_toNumber demo_heap
       (demo_collection\<lparr>m_nodes := [NodePtr 1, NodePtr 2, NodePtr 3, nullptr]\<rparr>)
       [JSNumber 3] = Undefined"
  by (simp add: add_def item_def argument_at_def internalAdd_def demo_getPrivate_def
        demo_collection_def demo_toNumber_def double_to_size_t_def)

text \<open>
  C3. The claim: \<open>item(index)\<close> returns the node stored at an index below the length and
  absence for every other index, a negative one included, and never wraps or clamps the
  index into range. The code compares with the length only after the double of the
  argument has been converted to \<^verbatim>\<open>size_t\<close>, and that conversion is not guarded: on the
  collection A, B, C the indices \<open>- 1\<close> and \<open>2 ^ 64\<close> have no \<^verbatim>\<open>size_t\<close> value, so the
  conversion is without meaning and the index that reaches the comparison is whatever
  the machine makes of it (0, which answers with A, where it wraps or saturates).
\<close>

theorem item_index_conversion_unchecked:
  "item demo_toNumber demo_heap demo_collection [JSNumber (- 1)] = Undefined
   \<and> item demo_toNumber demo_heap demo_collection [JSNumber 18446744073709551616]
       = Undefined"
  by (simp add: item_def argument_at_def demo_toNumber_def double_to_size_t_def)

text \<open>
  C4. The claim: \<open>remove(index)\<close> with an index at or beyond the length raises an index
  error and leaves the sequence as it was. The code has no bounds check (\<^verbatim>\<open>item\<close> has
  one): on the collection A, B, C, \<open>remove(5)\<close> erases at \<^verbatim>\<open>begin() + 5\<close>, outside the
  vector.
\<close>

theorem remove_out_of_range_unchecked:
  "remove demo_toNumber demo_collection [JSNumber 5] = Undefined"
  by (simp add: remove_def argument_at_def erase_def demo_toNumber_def
        double_to_size_t_def demo_collection_def)

text \<open>
  C5. The claim: \<open>add(node, before)\<close> with a \<open>before\<close> object that is not stored raises an
  invalid-reference error and changes nothing. The code raises nothing: on the collection
  A, B, C, \<open>add(D, E)\<close> with two nodes that are not stored (addresses 4 and 5) erases at
  \<^verbatim>\<open>end()\<close>, and so does \<^verbatim>\<open>internalAdd\<close> called with the pointers of D and E.
\<close>

theorem add_before_unknown_fails:
  "add demo_getPrivate demo_collection [JSObject 14, JSObject 15] = Undefined
   \<and> internalAdd [NodePtr 1, NodePtr 2, NodePtr 3] (NodePtr 4) (NodePtr 5) = Undefined"
  by (simp add: add_def argument_at_def internalAdd_def erase_def insert_at_def
        demo_getPrivate_def demo_collection_def)

text \<open>
  C10. A second argument that is not an object is ignored by \<^verbatim>\<open>add\<close>: the node of the
  first argument is appended at the end, \<^verbatim>\<open>nullptr\<close> is returned and nothing is raised.
\<close>

theorem add_non_object_before_appends:
  "\<not> JSValueIsObject before \<Longrightarrow>
   add getPrivate c (JSObject n # before # rest) =
     Done \<lparr>returned = None, raised = None,
           collection = c\<lparr>m_nodes := m_nodes c @ [getPrivate n]\<rparr>\<rparr>"
  by (simp add: add_def argument_at_def internalAdd_def)

theorem add_non_object_before_appends_witness:
  "\<not> JSValueIsObject (JSString ''B'')
   \<and> add demo_getPrivate demo_collection [JSObject 14, JSString ''B''] =
       Done \<lparr>returned = None, raised = None,
             collection = \<lparr>m_item = 1, m_add = 2, m_remove = 3,
                            m_nodes = [NodePtr 1, NodePtr 2, NodePtr 3, NodePtr 4]\<rparr>\<rparr>"
  using add_non_object_before_appends
    [of "JSString ''B''" demo_getPrivate demo_collection 14 "[]"]
  by (simp add: demo_getPrivate_def demo_collection_def)

section \<open>JSAllCollection: property lookup\<close>

text \<open>
  C6. \<^verbatim>\<open>getProperty\<close> looks the name up in the property map first. The four names of
  the map are answered from the collection whatever the fallback is, and the fallback
  answers exactly the names that miss the map.
\<close>

theorem static_table_first:
  "(getAllCollectionPropertyMap name = None \<longrightarrow>
      getProperty fallback c name = fallback name)
   \<and> (name \<in> {''item'', ''add'', ''remove'', ''length''} \<longrightarrow>
      getAllCollectionPropertyMap name \<noteq> None
      \<and> getProperty fallback c name = getProperty fallback' c name)
   \<and> getProperty fallback c ''item'' = (Some (JSObject (m_item c)), None)
   \<and> getProperty fallback c ''add'' = (Some (JSObject (m_add c)), None)
   \<and> getProperty fallback c ''remove'' = (Some (JSObject (m_remove c)), None)
   \<and> getProperty fallback c ''length'' =
       (Some (JSNumber (int (length (m_nodes c)))), None)"
  by (auto simp add: getProperty_def getAllCollectionPropertyMap_def)

theorem static_table_first_witness:
  "getAllCollectionPropertyMap ''abc'' = None
   \<and> getProperty SampleExoticHostObject_getProperty demo_collection ''abc'' =
       (Some (JSNumber 100), None)
   \<and> ''length'' \<in> {''item'', ''add'', ''remove'', ''length''}
   \<and> getProperty SampleExoticHostObject_getProperty demo_collection ''length'' =
       (Some (JSNumber 3), None)
   \<and> getProperty SampleExoticHostObject_getProperty demo_collection ''length'' =
       getProperty (\<lambda>name. (None, None)) demo_collection ''length''"
  using static_table_first
      [of "''abc''" SampleExoticHostObject_getProperty demo_collection "\<lambda>name. (None, None)"]
    static_table_first
      [of "''length''" SampleExoticHostObject_getProperty demo_collection "\<lambda>name. (None, None)"]
  by (simp add: getAllCollectionPropertyMap_def SampleExoticHostObject_getProperty_def
        demo_collection_def)

section \<open>JSWindow: destruction\<close>

text \<open>
  C7. At the end of the body of \<^verbatim>\<open>~JSWindow\<close>, that is, before the members are
  destroyed and the storage is given back, the stored onload callback is the neutral
  value and the window holds no location any more: its share of the location object has
  been released, which ends the life of that object when the window was its only owner
  and lowers the use count by one otherwise. The device pixel ratio is not touched.
\<close>

theorem window_destructor_clears:
  "onloadCallback (fst (JSWindow_destructor (w, counts))) = NullValue
   \<and> location (fst (JSWindow_destructor (w, counts))) = None
   \<and> devicePixelRatio (fst (JSWindow_destructor (w, counts))) = devicePixelRatio w
   \<and> snd (JSWindow_destructor (w, counts)) = shared_ptr_reset (location w) counts
   \<and> (location w = Some a \<and> counts a = Some 1 \<longrightarrow>
        snd (JSWindow_destructor (w, counts)) a = None)
   \<and> (location w = Some a \<and> counts a = Some (Suc (Suc n)) \<longrightarrow>
        snd (JSWindow_destructor (w, counts)) a = Some (Suc n))"
  by (simp add: JSWindow_destructor_def shared_ptr_reset_def)

theorem window_destructor_clears_witness:
  "location demo_window = Some 5
   \<and> [5 \<mapsto> 1 :: nat] (5 :: nat) = Some 1
   \<and> JSWindow_destructor (demo_window, [5 \<mapsto> 1]) =
       (\<lparr>onloadCallback = NullValue, devicePixelRatio = 2, location = None\<rparr>, Map.empty)
   \<and> [5 \<mapsto> 2 :: nat] (5 :: nat) = Some (Suc (Suc 0))
   \<and> snd (JSWindow_destructor (demo_window, [5 \<mapsto> 2])) 5 = Some (Suc 0)"
  using window_destructor_clears [of demo_window "[5 \<mapsto> 1]" 5 0]
    window_destructor_clears [of demo_window "[5 \<mapsto> 2]" 5 0]
  by (simp add: JSWindow_destructor_def shared_ptr_reset_def demo_window_def
        numeral_2_eq_2)

section \<open>JSCDebuggerImpl: the pause loop and detaching\<close>

text \<open>
  A loop that finds the flag set for the first time at its \<open>n\<close>-th later reading has
  slept \<open>n\<close> times by then.
\<close>

lemma pause_loop_returns:
  "flag (k + n) \<Longrightarrow> (\<forall>j<n. \<not> flag (k + j)) \<Longrightarrow>
   pause_loop flag k calls = Some (calls @ replicate n (SleepFor 50))"
proof (induction n arbitrary: k calls)
  case 0
  then show ?case by (subst pause_loop.simps) simp
next
  case (Suc n)
  have unset: "\<not> flag k"
    using Suc.prems(2) by (metis add.right_neutral zero_less_Suc)
  have later: "flag (Suc k + n)"
    using Suc.prems(1) by simp
  have between: "\<forall>j<n. \<not> flag (Suc k + j)"
  proof (intro allI impI)
    fix j assume "j < n"
    then have "Suc j < Suc n" by simp
    then have "\<not> flag (k + Suc j)" using Suc.prems(2) by blast
    then show "\<not> flag (Suc k + j)" by simp
  qed
  have "pause_loop flag k calls = pause_loop flag (Suc k) (calls @ [SleepFor 50])"
    using unset by (subst pause_loop.simps) simp
  also have "\<dots> = Some ((calls @ [SleepFor 50]) @ replicate n (SleepFor 50))"
    by (rule Suc.IH [OF later between])
  finally show ?case by (simp add: replicate_app_Cons_same)
qed

text \<open>A loop that returns has read the flag set.\<close>

lemma pause_loop_Some_flag:
  assumes "pause_loop flag k calls = Some y"
  shows "\<exists>j. flag j"
proof (rule pause_loop.raw_induct [where P = "\<lambda>f k calls y. \<exists>j. f j", OF _ assms])
  fix rec :: "(nat \<Rightarrow> bool) \<Rightarrow> nat \<Rightarrow> engine_call list \<Rightarrow> engine_call list option"
  fix f k' calls' y'
  assume IH: "\<And>g k c z. rec g k c = Some z \<Longrightarrow> \<exists>j. g j"
  assume step:
    "(if \<not> f k' then rec f (Suc k') (calls' @ [SleepFor 50]) else Some calls') = Some y'"
  show "\<exists>j. f j"
  proof (cases "f k'")
    case True
    then show ?thesis by blast
  next
    case False
    with step have "rec f (Suc k') (calls' @ [SleepFor 50]) = Some y'" by simp
    then show ?thesis by (rule IH)
  qed
qed

lemma pause_loop_never: "\<forall>k. \<not> flag k \<Longrightarrow> pause_loop flag k calls = None"
  using pause_loop_Some_flag [of flag k calls] by (cases "pause_loop flag k calls") auto

lemma first_reading_set:
  "\<exists>n::nat. flag n \<Longrightarrow> \<exists>n. flag n \<and> (\<forall>j<n. \<not> flag j)"
proof -
  assume "\<exists>n. flag n"
  then have "flag (LEAST n. flag n)" by (rule LeastI_ex)
  moreover have "\<forall>j<(LEAST n. flag n). \<not> flag j" using not_less_Least by blast
  ultimately show ?thesis by blast
qed

text \<open>
  C8. \<^verbatim>\<open>runEventLoopWhilePaused\<close> drops all locks first and then reads the flag; it
  returns at the first reading that finds the flag set, having slept 50 ms after each of
  the readings before. So it returns whenever some reading finds the flag set, it returns
  without sleeping when the first reading does, and it never returns when no reading
  does.
\<close>

theorem pause_loop_returns_when_flag_set:
  "(flag n \<and> (\<forall>j<n. \<not> flag j) \<longrightarrow>
      runEventLoopWhilePaused flag =
        Some (DropAllLocks # replicate n (SleepFor 50) @ [RestoreLocks]))
   \<and> ((\<exists>m. flag m) \<longrightarrow> (\<exists>calls. runEventLoopWhilePaused flag = Some calls))
   \<and> (flag 0 \<longrightarrow> runEventLoopWhilePaused flag = Some [DropAllLocks, RestoreLocks])
   \<and> ((\<forall>k. \<not> flag k) \<longrightarrow> runEventLoopWhilePaused flag = None)"
proof -
  have ret: "runEventLoopWhilePaused flag =
        Some (DropAllLocks # replicate m (SleepFor 50) @ [RestoreLocks])"
    if "flag m" "\<forall>j<m. \<not> flag j" for m
    using pause_loop_returns [of flag 0 m "[DropAllLocks]"] that
    by (simp add: runEventLoopWhilePaused_def)
  have ex: "\<exists>calls. runEventLoopWhilePaused flag = Some calls" if "\<exists>m. flag m"
    using first_reading_set [OF that] ret by blast
  have at_once: "runEventLoopWhilePaused flag = Some [DropAllLocks, RestoreLocks]" if "flag 0"
    using ret [of 0] that by simp
  have never: "runEventLoopWhilePaused flag = None" if "\<forall>k. \<not> flag k"
    using pause_loop_never [OF that] by (simp add: runEventLoopWhilePaused_def)
  show ?thesis using ret ex at_once never by blast
qed

theorem pause_loop_returns_when_flag_set_witness:
  "(2::nat) \<le> 2 \<and> \<not> (2::nat) \<le> 0 \<and> \<not> (2::nat) \<le> 1
   \<and> runEventLoopWhilePaused (\<lambda>k. 2 \<le> k) =
       Some [DropAllLocks, SleepFor 50, SleepFor 50, RestoreLocks]
   \<and> (0::nat) \<le> 0
   \<and> runEventLoopWhilePaused (\<lambda>k. 0 \<le> k) = Some [DropAllLocks, RestoreLocks]
   \<and> runEventLoopWhilePaused (\<lambda>k. False) = None"
proof -
  have before: "\<forall>j<2. \<not> (2::nat) \<le> j"
    by simp
  show ?thesis
    using pause_loop_returns_when_flag_set [of "\<lambda>k. 2 \<le> k" 2] before
      pause_loop_returns_when_flag_set [of "\<lambda>k. 0 \<le> k" 0]
      pause_loop_returns_when_flag_set [of "\<lambda>k. False" 0]
    by (simp add: numeral_2_eq_2)
qed

text \<open>
  C9. \<^verbatim>\<open>detachDebugger\<close> with \<open>isBeingDestroyed\<close> false detaches with the reason
  \<open>TerminatingDebuggingSession\<close> and after that recompiles all functions under the lock
  holder; with \<open>isBeingDestroyed\<close> true it detaches with the reason
  \<open>GlobalObjectIsDestructing\<close> and recompiles nothing.
\<close>

theorem detach_recompiles_unless_destroyed:
  "detachDebugger False =
     [Log ''[debugger] JS debugger detached!'', Detach TerminatingDebuggingSession,
      Log ''recompileAllJSFunctions called'', LockHolderEnter,
      DebuggerRecompileAllJSFunctions, LockHolderLeave]
   \<and> detachDebugger True =
     [Log ''[debugger] JS debugger detached!'', Detach GlobalObjectIsDestructing]
   \<and> DebuggerRecompileAllJSFunctions \<notin> set (detachDebugger True)"
  by (simp add: detachDebugger_def recompileAllJSFunctions_def)

end
